theory Spec2Isabelle
  imports Main
begin

section \<open>The REST client of pkg/rest/client.go\<close>

text \<open>
  The file \<^verbatim>\<open>client.go\<close> declares the interface \<^verbatim>\<open>DynatraceClient\<close> and its only
  implementation \<^verbatim>\<open>dynatraceClientImpl\<close>. Every method of the implementation reads the
  three fields of its receiver and hands them, by value, to a package-level function of
  package \<^verbatim>\<open>rest\<close> that performs the HTTP traffic. Those package-level functions
  (\<^verbatim>\<open>getExistingValuesFromEndpoint\<close>, \<^verbatim>\<open>getObjectIdIfAlreadyExists\<close>, \<^verbatim>\<open>get\<close>,
  \<^verbatim>\<open>deleteDynatraceObject\<close>, \<^verbatim>\<open>uploadExtension\<close>, \<^verbatim>\<open>upsertDynatraceObject\<close>) live in
  other files of the package; the methods below take them as parameters, so that what is
  proved about a method from its own body holds for whatever those functions do.
\<close>

subsection \<open>Data\<close>

text \<open>
  A Go \<^verbatim>\<open>error\<close> is represented by its message; \<^verbatim>\<open>nil\<close> is \<open>None\<close>. A method with the
  results \<^verbatim>\<open>(v, err)\<close> returns the pair of both, as in Go, where a value is returned
  beside a non-nil error too. A \<^verbatim>\<open>[]byte\<close> is a \<open>string\<close>, and the \<^verbatim>\<open>nil\<close> slice is the
  empty one.
\<close>

type_synonym error = string

text \<open>\<^verbatim>\<open>*http.Client\<close>: the address of the transport object.\<close>

type_synonym http_Client = nat

text \<open>
  \<^verbatim>\<open>api.Api\<close> is an interface of package \<^verbatim>\<open>api\<close>; \<^verbatim>\<open>client.go\<close> calls two of its
  methods, and both are read as pure.
\<close>

record Api =
  GetId :: string
  GetUrlFromEnvironmentUrl :: "string \<Rightarrow> string"

text \<open>\<^verbatim>\<open>api.Value\<close>: the id and name tuple of one listed config.\<close>

record Value =
  valueId :: string
  valueName :: string

text \<open>\<^verbatim>\<open>api.DynatraceEntity\<close>: what a create or update returns, the remote id at least.\<close>

record DynatraceEntity =
  entityId :: string

text \<open>The result of \<^verbatim>\<open>get\<close>; \<^verbatim>\<open>ReadById\<close> reads its field \<^verbatim>\<open>Body\<close>.\<close>

record Response =
  StatusCode :: nat
  Body :: string

record dynatraceClientImpl =
  environmentUrl :: string
  token :: string
  client :: http_Client

text \<open>
  The methods have the pointer receiver \<^verbatim>\<open>d *dynatraceClientImpl\<close>. The state of a call is
  the struct the receiver points to, together with everything else the package-level
  functions can reach (the transport object, the remote environment), of type \<open>'w\<close>. A
  package-level function gets copies of the receiver's fields only, so it is a function on
  \<open>'w\<close>; \<open>call\<close> runs it inside the state of a method.
\<close>

record 'w state =
  receiver :: dynatraceClientImpl
  world :: 'w

definition call :: "('w \<Rightarrow> 'a \<times> 'w) \<Rightarrow> 'w state \<Rightarrow> 'a \<times> 'w state" where
  "call f s = (let (r, w') = f (world s) in (r, s\<lparr>world := w'\<rparr>))"

text \<open>
  The collection endpoint of a family, \<^verbatim>\<open>api.GetUrlFromEnvironmentUrl(d.environmentUrl)\<close>,
  as every method computes it from its receiver.
\<close>

definition endpoint :: "Api \<Rightarrow> 'w state \<Rightarrow> string" where
  "endpoint api s = GetUrlFromEnvironmentUrl api (environmentUrl (receiver s))"

subsection \<open>The methods of dynatraceClientImpl\<close>

definition NewDynatraceClient :: "string \<Rightarrow> string \<Rightarrow> http_Client \<Rightarrow> dynatraceClientImpl" where
  \<comment> \<open>the third argument is the address of the freshly allocated \<^verbatim>\<open>http.Client\<close>\<close>
  "NewDynatraceClient environmentUrl' token' fresh =
     \<lparr>environmentUrl = environmentUrl', token = token', client = fresh\<rparr>"

definition List ::
  "(http_Client \<Rightarrow> string \<Rightarrow> string \<Rightarrow> string \<Rightarrow> 'w \<Rightarrow> ('x \<times> Value list \<times> error option) \<times> 'w)
   \<Rightarrow> Api \<Rightarrow> 'w state \<Rightarrow> (Value list \<times> error option) \<times> 'w state" where
  "List getExistingValuesFromEndpoint api s =
     (let d = receiver s;
          url = GetUrlFromEnvironmentUrl api (environmentUrl d);
          ((_, values, err), s') =
             call (getExistingValuesFromEndpoint (client d) (GetId api) url (token d)) s
      in ((values, err), s'))"

definition ReadById ::
  "(http_Client \<Rightarrow> string \<Rightarrow> string \<Rightarrow> 'w \<Rightarrow> Response \<times> 'w)
   \<Rightarrow> Api \<Rightarrow> string \<Rightarrow> 'w state \<Rightarrow> (string \<times> error option) \<times> 'w state" where
  "ReadById get api id' s =
     (let d = receiver s;
          url = GetUrlFromEnvironmentUrl api (environmentUrl d) @ ''/'' @ id';
          (response, s') = call (get (client d) url (token d)) s
      in ((Body response, None), s'))"

definition DeleteByName ::
  "(http_Client \<Rightarrow> string \<Rightarrow> string \<Rightarrow> string \<Rightarrow> string \<Rightarrow> 'w \<Rightarrow> error option \<times> 'w)
   \<Rightarrow> Api \<Rightarrow> string \<Rightarrow> 'w state \<Rightarrow> error option \<times> 'w state" where
  "DeleteByName deleteDynatraceObject api name s =
     (let d = receiver s
      in call (deleteDynatraceObject (client d) (GetId api) name
                 (GetUrlFromEnvironmentUrl api (environmentUrl d)) (token d)) s)"

definition ExistsByName ::
  "(http_Client \<Rightarrow> string \<Rightarrow> string \<Rightarrow> string \<Rightarrow> string \<Rightarrow> 'w \<Rightarrow> ('x \<times> string \<times> error option) \<times> 'w)
   \<Rightarrow> Api \<Rightarrow> string \<Rightarrow> 'w state \<Rightarrow> (bool \<times> string \<times> error option) \<times> 'w state" where
  "ExistsByName getObjectIdIfAlreadyExists api name s =
     (let d = receiver s;
          ((_, existingObjectId, err), s') =
             call (getObjectIdIfAlreadyExists (client d) (GetId api)
                     (GetUrlFromEnvironmentUrl api (environmentUrl d)) name (token d)) s
      in ((existingObjectId \<noteq> '''', existingObjectId, err), s'))"

definition ReadByName ::
  "(http_Client \<Rightarrow> string \<Rightarrow> string \<Rightarrow> string \<Rightarrow> string \<Rightarrow> 'w \<Rightarrow> ('x \<times> string \<times> error option) \<times> 'w)
   \<Rightarrow> (http_Client \<Rightarrow> string \<Rightarrow> string \<Rightarrow> 'w \<Rightarrow> Response \<times> 'w)
   \<Rightarrow> Api \<Rightarrow> string \<Rightarrow> 'w state \<Rightarrow> (string \<times> error option) \<times> 'w state" where
  "ReadByName getObjectIdIfAlreadyExists get api name s =
     (let ((exists, id', err), s') = ExistsByName getObjectIdIfAlreadyExists api name s
      in if err \<noteq> None then (([], err), s')
         else if \<not> exists then (([], Some (''404 - no config found with name '' @ name)), s')
         else ReadById get api id' s')"

text \<open>
  The interface declares \<^verbatim>\<open>UpsertByName(api api.Api, name, json string)\<close>; the method of
  \<^verbatim>\<open>dynatraceClientImpl\<close> is declared \<^verbatim>\<open>UpsertByName(api api.Api, json, name string)\<close>.
  Go binds arguments by position, so the definition keeps the order and the names of the
  method: its first string parameter is called \<open>json\<close>, its second \<open>name\<close>.
\<close>

definition UpsertByName ::
  "(http_Client \<Rightarrow> string \<Rightarrow> string \<Rightarrow> string \<Rightarrow> string \<Rightarrow> 'w \<Rightarrow> (DynatraceEntity \<times> error option) \<times> 'w)
   \<Rightarrow> (http_Client \<Rightarrow> string \<Rightarrow> string \<Rightarrow> string \<Rightarrow> string \<Rightarrow> string \<Rightarrow> 'w
        \<Rightarrow> (DynatraceEntity \<times> error option) \<times> 'w)
   \<Rightarrow> Api \<Rightarrow> string \<Rightarrow> string \<Rightarrow> 'w state \<Rightarrow> (DynatraceEntity \<times> error option) \<times> 'w state" where
  "UpsertByName uploadExtension upsertDynatraceObject api json name s =
     (let d = receiver s;
          url = GetUrlFromEnvironmentUrl api (environmentUrl d)
      in if GetId api = ''extension''
         then call (uploadExtension (client d) url name json (token d)) s
         else call (upsertDynatraceObject (client d) url name (GetId api) json (token d)) s)"

section \<open>The remote environment and the functions outside client.go\<close>

text \<open>
  The functions that \<^verbatim>\<open>client.go\<close> calls are modelled here from sections 3, 4.1 and 6 of
  the specification, over a remote environment that stores configs and answers the four
  HTTP verbs. The environment records every request it receives, in order.
\<close>

datatype verb = GET | POST | PUT | DELETE

record request =
  verb :: verb
  target :: string
  auth :: string
  sent :: string

text \<open>One remote object: its id, its name and its content.\<close>

record config =
  configId :: string
  configName :: string
  configBody :: string

text \<open>
  Modelled from the spec: the remote configuration API and the HTTP transport, which are no
  part of \<^verbatim>\<open>client.go\<close>. \<open>stored\<close> holds every object beside the collection endpoint of
  its family, in the order of its listing. \<open>fault\<close> is the failure, if any, with which
  the transport answers a request with this verb to this target (a network failure or a
  non-2xx status, as the error that the HTTP layer surfaces). \<open>naming\<close> is how the remote
  reads the name of an object out of a body (a create or update request carries no name
  beside the body), \<open>mint\<close> and \<open>issued\<close> are its supply of ids, \<open>log\<close> is the sequence
  of requests received so far.
\<close>

record remote =
  stored :: "(string \<times> config) list"
  fault :: "verb \<Rightarrow> string \<Rightarrow> error option"
  naming :: "string \<Rightarrow> string"
  mint :: "nat \<Rightarrow> string"
  issued :: nat
  log :: "request list"

definition received :: "verb \<Rightarrow> string \<Rightarrow> string \<Rightarrow> string \<Rightarrow> remote \<Rightarrow> remote" where
  "received v url tok payload r =
     r\<lparr>log := log r @ [\<lparr>verb = v, target = url, auth = tok, sent = payload\<rparr>]\<rparr>"

definition listing :: "remote \<Rightarrow> string \<Rightarrow> Value list" where
  "listing r url =
     map (\<lambda>(u, c). \<lparr>valueId = configId c, valueName = configName c\<rparr>)
       (filter (\<lambda>(u, c). u = url) (stored r))"

definition addressed :: "string \<Rightarrow> string \<times> config \<Rightarrow> bool" where
  \<comment> \<open>the object is the one at \<^verbatim>\<open><collection endpoint>/<id>\<close>\<close>
  "addressed url uc = (fst uc @ ''/'' @ configId (snd uc) = url)"

text \<open>
  Modelled from the spec: \<^verbatim>\<open>rest.getExistingValuesFromEndpoint\<close>, whose body is not in
  \<^verbatim>\<open>client.go\<close>. Section 4.1, List: one GET against the family's collection endpoint; the
  response is the full set of (id, name) summaries for that family, or the call fails.
  \<^verbatim>\<open>client.go\<close> discards the first of its three results, which is \<open>()\<close> here.
\<close>

definition getExistingValuesFromEndpoint ::
  "http_Client \<Rightarrow> string \<Rightarrow> string \<Rightarrow> string \<Rightarrow> remote \<Rightarrow> (unit \<times> Value list \<times> error option) \<times> remote" where
  "getExistingValuesFromEndpoint client' apiId url tok r =
     (case fault r GET url of
        Some e \<Rightarrow> (((), [], Some e), received GET url tok [] r)
      | None \<Rightarrow> (((), listing r url, None), received GET url tok [] r))"

text \<open>
  Modelled from the spec: \<^verbatim>\<open>rest.getObjectIdIfAlreadyExists\<close>, whose body is not in
  \<^verbatim>\<open>client.go\<close>. Section 4.1, ExistsByName: it calls List, scans for the first Value whose
  name equals the requested name (exact match) and returns its id; with no match the id is
  the empty string and this is no error; if List fails, the error is propagated.
  \<^verbatim>\<open>client.go\<close> discards the first of its three results, which is \<open>()\<close> here.
\<close>

definition getObjectIdIfAlreadyExists ::
  "http_Client \<Rightarrow> string \<Rightarrow> string \<Rightarrow> string \<Rightarrow> string \<Rightarrow> remote \<Rightarrow> (unit \<times> string \<times> error option) \<times> remote" where
  "getObjectIdIfAlreadyExists client' apiId url objectName tok r =
     (let ((_, values, err), r') = getExistingValuesFromEndpoint client' apiId url tok r
      in if err \<noteq> None then (((), [], err), r')
         else case find (\<lambda>v. valueName v = objectName) values of
                None \<Rightarrow> (((), [], None), r')
              | Some v \<Rightarrow> (((), valueId v, None), r'))"

text \<open>
  Modelled from the spec: \<^verbatim>\<open>rest.get\<close>, whose body is not in \<^verbatim>\<open>client.go\<close>. Section 6: the
  transport takes a target URL and a token and returns a status code and a response body,
  or a transport-level error. \<^verbatim>\<open>get\<close> has a single result, so a transport-level error has
  no place in it; the zero \<^verbatim>\<open>Response\<close> stands for it here. The remote answers 200 with the
  content of the object at the target, and 404 when there is none.
\<close>

definition get :: "http_Client \<Rightarrow> string \<Rightarrow> string \<Rightarrow> remote \<Rightarrow> Response \<times> remote" where
  "get client' url tok r =
     (case fault r GET url of
        Some e \<Rightarrow> (\<lparr>StatusCode = 0, Body = []\<rparr>, received GET url tok [] r)
      | None \<Rightarrow>
          (case find (addressed url) (stored r) of
             None \<Rightarrow> (\<lparr>StatusCode = 404, Body = []\<rparr>, received GET url tok [] r)
           | Some uc \<Rightarrow> (\<lparr>StatusCode = 200, Body = configBody (snd uc)\<rparr>, received GET url tok [] r)))"

text \<open>
  Modelled from the spec: the two writes of the generic upsert path, section 4.1, steps 3
  and 4. A POST of the body to the collection endpoint creates an object under a new id;
  a PUT of the body to \<^verbatim>\<open><collection endpoint>/<id>\<close> replaces the object in place. Either
  returns the entity with the id of the object, or the error of the HTTP call.
\<close>

definition post ::
  "http_Client \<Rightarrow> string \<Rightarrow> string \<Rightarrow> string \<Rightarrow> remote \<Rightarrow> (DynatraceEntity \<times> error option) \<times> remote" where
  "post client' url payload tok r =
     (case fault r POST url of
        Some e \<Rightarrow> ((\<lparr>entityId = []\<rparr>, Some e), received POST url tok payload r)
      | None \<Rightarrow>
          (let c = \<lparr>configId = mint r (issued r), configName = naming r payload,
                    configBody = payload\<rparr>
           in ((\<lparr>entityId = configId c\<rparr>, None),
               received POST url tok payload
                 (r\<lparr>stored := stored r @ [(url, c)], issued := Suc (issued r)\<rparr>))))"

definition put ::
  "http_Client \<Rightarrow> string \<Rightarrow> string \<Rightarrow> string \<Rightarrow> string \<Rightarrow> remote
   \<Rightarrow> (DynatraceEntity \<times> error option) \<times> remote" where
  "put client' url objectId payload tok r =
     (case fault r PUT (url @ ''/'' @ objectId) of
        Some e \<Rightarrow>
          ((\<lparr>entityId = []\<rparr>, Some e), received PUT (url @ ''/'' @ objectId) tok payload r)
      | None \<Rightarrow>
          ((\<lparr>entityId = objectId\<rparr>, None),
           received PUT (url @ ''/'' @ objectId) tok payload
             (r\<lparr>stored :=
                  map (\<lambda>uc. if addressed (url @ ''/'' @ objectId) uc
                             then (fst uc, (snd uc)\<lparr>configName := naming r payload,
                                                   configBody := payload\<rparr>)
                             else uc) (stored r)\<rparr>)))"

text \<open>
  Modelled from the spec: \<^verbatim>\<open>rest.upsertDynatraceObject\<close>, whose body is not in
  \<^verbatim>\<open>client.go\<close>. Section 4.1, UpsertByName, steps 2 to 5: resolve existence by the name
  scan of ExistsByName; with no existing object of that name POST the body to the
  collection endpoint; otherwise PUT the body to \<^verbatim>\<open><collection endpoint>/<id>\<close> with the id
  that the scan found; return the entity or the error of the call that was attempted.
  The parameters are in the order in which \<^verbatim>\<open>client.go\<close> passes its arguments:
  \<^verbatim>\<open>(d.client, url, name, api.GetId(), json, d.token)\<close>.
\<close>

definition upsertDynatraceObject ::
  "http_Client \<Rightarrow> string \<Rightarrow> string \<Rightarrow> string \<Rightarrow> string \<Rightarrow> string \<Rightarrow> remote
   \<Rightarrow> (DynatraceEntity \<times> error option) \<times> remote" where
  "upsertDynatraceObject client' fullUrl objectName configType payload tok r =
     (let ((_, existingObjectId, err), r') =
            getObjectIdIfAlreadyExists client' configType fullUrl objectName tok r
      in if err \<noteq> None then ((\<lparr>entityId = []\<rparr>, err), r')
         else if existingObjectId = [] then post client' fullUrl payload tok r'
         else put client' fullUrl existingObjectId payload tok r')"

subsection \<open>Two families and a remote to run the client against\<close>

text \<open>
  The family of the doc comments of \<^verbatim>\<open>client.go\<close>
  (\<^verbatim>\<open>GET <environment-url>/api/config/v1/alertingProfiles\<close>) and the family with the
  identifier that \<^verbatim>\<open>UpsertByName\<close> tests for.
\<close>

definition alertingProfiles :: Api where
  "alertingProfiles =
     \<lparr>GetId = ''alerting-profile'',
      GetUrlFromEnvironmentUrl = (\<lambda>env. env @ ''/api/config/v1/alertingProfiles'')\<rparr>"

definition extension :: Api where
  "extension =
     \<lparr>GetId = ''extension'',
      GetUrlFromEnvironmentUrl = (\<lambda>env. env @ ''/api/config/v1/extensions'')\<rparr>"

definition profiles :: string where
  "profiles = ''https://env/api/config/v1/alertingProfiles''"

text \<open>
  The scenario of section 8 of the specification: the listing of the family is
  \<^verbatim>\<open>[{id:"1",name:"A"},{id:"2",name:"B"}]\<close>.
\<close>

definition remoteAB :: remote where
  "remoteAB =
     \<lparr>stored = [(profiles, \<lparr>configId = ''1'', configName = ''A'', configBody = ''{a}''\<rparr>),
                (profiles, \<lparr>configId = ''2'', configName = ''B'', configBody = ''{b}''\<rparr>)],
      fault = (\<lambda>v url. None),
      naming = (\<lambda>body. body),
      mint = (\<lambda>n. replicate (Suc n) CHR ''n''),
      issued = 0,
      log = []\<rparr>"

definition session :: "remote \<Rightarrow> remote state" where
  "session r = \<lparr>receiver = NewDynatraceClient ''https://env'' ''secret'' 0, world = r\<rparr>"

text \<open>The same remote, with a transport that fails every listing of the family.\<close>

definition remote500 :: remote where
  "remote500 =
     remoteAB\<lparr>fault := (\<lambda>v url. if v = GET \<and> url = profiles
                                  then Some ''500 Internal Server Error'' else None)\<rparr>"

text \<open>A family whose listing has two objects of the same name, and names that differ in case.\<close>

definition remoteFoo :: remote where
  "remoteFoo =
     remoteAB\<lparr>stored :=
       [(profiles, \<lparr>configId = ''7'', configName = ''foo'', configBody = ''{x}''\<rparr>),
        (profiles, \<lparr>configId = ''8'', configName = ''Foo'', configBody = ''{y}''\<rparr>),
        (profiles, \<lparr>configId = ''9'', configName = ''Foo'', configBody = ''{z}''\<rparr>)]\<rparr>"

text \<open>
  A remote that stores nothing yet and fails no request, for any way of naming objects and
  any supply of ids.
\<close>

definition emptyRemote :: "(string \<Rightarrow> string) \<Rightarrow> (nat \<Rightarrow> string) \<Rightarrow> remote" where
  "emptyRemote nm mt =
     \<lparr>stored = [], fault = (\<lambda>v url. None), naming = nm, mint = mt, issued = 0, log = []\<rparr>"

text \<open>
  Two calls of \<^verbatim>\<open>UpsertByName(api, name, body)\<close> through the interface, one after the
  other with nothing in between, for the same name; the state after the second.
\<close>

definition upsertTwice ::
  "(http_Client \<Rightarrow> string \<Rightarrow> string \<Rightarrow> string \<Rightarrow> string \<Rightarrow> remote \<Rightarrow> (DynatraceEntity \<times> error option) \<times> remote)
   \<Rightarrow> Api \<Rightarrow> string \<Rightarrow> string \<Rightarrow> string \<Rightarrow> remote state \<Rightarrow> remote state" where
  "upsertTwice upl api name bodyA bodyB s =
     snd (UpsertByName upl upsertDynatraceObject api name bodyB
            (snd (UpsertByName upl upsertDynatraceObject api name bodyA s)))"

text \<open>The empty remote after one POST of the body \<^verbatim>\<open>A\<close> to the alerting profiles.\<close>

definition afterFirst :: "(string \<Rightarrow> string) \<Rightarrow> (nat \<Rightarrow> string) \<Rightarrow> remote" where
  "afterFirst nm mt =
     \<lparr>stored = [(profiles, \<lparr>configId = mt 0, configName = nm ''A'', configBody = ''A''\<rparr>)],
      fault = (\<lambda>v url. None), naming = nm, mint = mt, issued = 1,
      log = [\<lparr>verb = GET, target = profiles, auth = ''secret'', sent = []\<rparr>,
             \<lparr>verb = POST, target = profiles, auth = ''secret'', sent = ''A''\<rparr>]\<rparr>"

section \<open>Properties\<close>

lemmas client_run =
  List_def ReadById_def DeleteByName_def ExistsByName_def ReadByName_def UpsertByName_def call_def

lemmas remote_run =
  getExistingValuesFromEndpoint_def getObjectIdIfAlreadyExists_def get_def post_def put_def
  upsertDynatraceObject_def received_def listing_def addressed_def

lemmas fixtures =
  alertingProfiles_def extension_def profiles_def remoteAB_def remote500_def remoteFoo_def
  emptyRemote_def session_def NewDynatraceClient_def endpoint_def

subsection \<open>What a call leaves of the state\<close>

lemma receiver_call: "receiver (snd (call f s)) = receiver s"
  by (simp add: call_def split: prod.splits)

lemma world_call: "world (snd (call f s)) = snd (f (world s))"
  by (simp add: call_def split: prod.splits)

lemma fst_call: "fst (call f s) = fst (f (world s))"
  by (simp add: call_def split: prod.splits)

lemma receiver_List: "receiver (snd (List gv api s)) = receiver s"
  by (simp add: List_def Let_def receiver_call split: prod.splits)
     (metis receiver_call snd_conv)

lemma receiver_ExistsByName: "receiver (snd (ExistsByName lk api name s)) = receiver s"
  by (simp add: ExistsByName_def Let_def split: prod.splits)
     (metis receiver_call snd_conv)

lemma receiver_ReadById: "receiver (snd (ReadById g api id' s)) = receiver s"
  by (simp add: ReadById_def Let_def split: prod.splits)
     (metis receiver_call snd_conv)

lemma receiver_ReadByName: "receiver (snd (ReadByName lk g api name s)) = receiver s"
proof -
  obtain ex oid err s' where e: "ExistsByName lk api name s = ((ex, oid, err), s')"
    by (metis prod.exhaust)
  then have "receiver s' = receiver s"
    using receiver_ExistsByName [of lk api name s] by simp
  with e show ?thesis
    by (simp add: ReadByName_def receiver_ReadById)
qed

lemma receiver_UpsertByName:
  "receiver (snd (UpsertByName upl ups api json name s)) = receiver s"
  by (simp add: UpsertByName_def Let_def receiver_call)

lemma receiver_DeleteByName: "receiver (snd (DeleteByName del api name s)) = receiver s"
  by (simp add: DeleteByName_def Let_def receiver_call)

text \<open>
  C9. For each of List, ExistsByName, ReadByName, ReadById, UpsertByName and DeleteByName,
  for every input and whatever the package-level functions do to the transport and the
  remote: the struct of the client (environment URL, token, transport handle) is the same
  after the call as before it. The struct has no other field, so no name or id is kept
  from one call to the next.
\<close>

theorem operations_keep_receiver:
  "receiver (snd (List gv api s)) = receiver s
   \<and> receiver (snd (ExistsByName lk api name s)) = receiver s
   \<and> receiver (snd (ReadByName lk g api name s)) = receiver s
   \<and> receiver (snd (ReadById g api id' s)) = receiver s
   \<and> receiver (snd (UpsertByName upl ups api json name s)) = receiver s
   \<and> receiver (snd (DeleteByName del api name s)) = receiver s"
  by (simp add: receiver_List receiver_ExistsByName receiver_ReadByName receiver_ReadById
        receiver_UpsertByName receiver_DeleteByName)

subsection \<open>ExistsByName\<close>

text \<open>
  C10. Whatever \<^verbatim>\<open>getObjectIdIfAlreadyExists\<close> returns, an error included, the flag that
  ExistsByName returns is true exactly when the id it returns is not the empty string.
\<close>

theorem ExistsByName_flag_iff_id:
  assumes "ExistsByName lookup api name s = ((exists, objectId, err), s')"
  shows "exists \<longleftrightarrow> objectId \<noteq> []"
  using assms by (auto simp: ExistsByName_def call_def Let_def split: prod.splits)

theorem ExistsByName_flag_iff_id_witness:
  "ExistsByName getObjectIdIfAlreadyExists alertingProfiles ''B'' (session remoteAB)
     = ((True, ''2'', None), session (received GET profiles ''secret'' [] remoteAB))
   \<and> (True \<longleftrightarrow> ''2'' \<noteq> [])"
proof -
  have run: "ExistsByName getObjectIdIfAlreadyExists alertingProfiles ''B'' (session remoteAB)
     = ((True, ''2'', None), session (received GET profiles ''secret'' [] remoteAB))"
    by (simp add: client_run remote_run fixtures)
  from ExistsByName_flag_iff_id [OF run] run show ?thesis by simp
qed

lemma ExistsByName_of_lookup:
  "fst (ExistsByName lk api name s) =
     (let r = fst (lk (client (receiver s)) (GetId api) (endpoint api s) name (token (receiver s)) (world s))
      in (fst (snd r) \<noteq> [], fst (snd r), snd (snd r)))"
  "snd (ExistsByName lk api name s) =
     s\<lparr>world := snd (lk (client (receiver s)) (GetId api) (endpoint api s) name (token (receiver s)) (world s))\<rparr>"
  by (simp_all add: ExistsByName_def call_def endpoint_def Let_def split: prod.splits)

lemma lookup_fault:
  "fault r GET url = Some e \<Longrightarrow>
   getObjectIdIfAlreadyExists c apiId url name tok r = (((), [], Some e), received GET url tok [] r)"
  by (simp add: getObjectIdIfAlreadyExists_def getExistingValuesFromEndpoint_def)

lemma lookup_served:
  "fault r GET url = None \<Longrightarrow>
   getObjectIdIfAlreadyExists c apiId url name tok r =
     (((), (case find (\<lambda>v. valueName v = name) (listing r url) of None \<Rightarrow> [] | Some v \<Rightarrow> valueId v), None),
      received GET url tok [] r)"
  by (simp add: getObjectIdIfAlreadyExists_def getExistingValuesFromEndpoint_def split: option.splits)

lemma find_first_match:
  "\<forall>u \<in> set pre. \<not> P u \<Longrightarrow> P v \<Longrightarrow> find P (pre @ v # suf) = Some v"
  by (induction pre) simp_all

text \<open>
  C6. With \<^verbatim>\<open>getObjectIdIfAlreadyExists\<close> as section 4.1 of the specification describes it:
  when the listing of the family is served and no Value of it has the requested name,
  ExistsByName returns the flag false, the empty id and a nil error.
\<close>

theorem ExistsByName_absent:
  assumes "fault (world s) GET (endpoint api s) = None"
    and "\<forall>v \<in> set (listing (world s) (endpoint api s)). valueName v \<noteq> name"
  shows "fst (ExistsByName getObjectIdIfAlreadyExists api name s) = (False, [], None)"
proof -
  from assms(2) have "find (\<lambda>v. valueName v = name) (listing (world s) (endpoint api s)) = None"
    by (simp add: find_None_iff)
  with assms(1) show ?thesis
    by (simp add: ExistsByName_of_lookup lookup_served)
qed

theorem ExistsByName_absent_witness:
  "fault (world (session remoteAB)) GET (endpoint alertingProfiles (session remoteAB)) = None
   \<and> listing (world (session remoteAB)) (endpoint alertingProfiles (session remoteAB)) =
       [\<lparr>valueId = ''1'', valueName = ''A''\<rparr>, \<lparr>valueId = ''2'', valueName = ''B''\<rparr>]
   \<and> fst (ExistsByName getObjectIdIfAlreadyExists alertingProfiles ''C'' (session remoteAB)) =
       (False, [], None)"
proof -
  have f: "fault (world (session remoteAB)) GET (endpoint alertingProfiles (session remoteAB)) = None"
    by (simp add: fixtures)
  have l: "listing (world (session remoteAB)) (endpoint alertingProfiles (session remoteAB)) =
       [\<lparr>valueId = ''1'', valueName = ''A''\<rparr>, \<lparr>valueId = ''2'', valueName = ''B''\<rparr>]"
    by (simp add: fixtures listing_def)
  have a: "\<forall>v \<in> set (listing (world (session remoteAB)) (endpoint alertingProfiles (session remoteAB))).
             valueName v \<noteq> ''C''"
    by (simp add: l)
  from ExistsByName_absent [OF f a] f l show ?thesis by simp
qed

text \<open>
  C7. With \<^verbatim>\<open>getObjectIdIfAlreadyExists\<close> as section 4.1 of the specification describes it:
  when the listing of the family fails with an error, ExistsByName returns that error, and
  the one GET of the listing is the only request the remote receives during the call; the
  stored objects are as before.
\<close>

theorem ExistsByName_list_failure:
  assumes "fault (world s) GET (endpoint api s) = Some e"
  shows "snd (snd (fst (ExistsByName getObjectIdIfAlreadyExists api name s))) = Some e
       \<and> log (world (snd (ExistsByName getObjectIdIfAlreadyExists api name s))) =
           log (world s) @ [\<lparr>verb = GET, target = endpoint api s, auth = token (receiver s), sent = []\<rparr>]
       \<and> stored (world (snd (ExistsByName getObjectIdIfAlreadyExists api name s))) = stored (world s)"
  using assms by (simp add: ExistsByName_of_lookup lookup_fault received_def)

theorem ExistsByName_list_failure_witness:
  "fault (world (session remote500)) GET (endpoint alertingProfiles (session remote500)) =
     Some ''500 Internal Server Error''
   \<and> fst (ExistsByName getObjectIdIfAlreadyExists alertingProfiles ''A'' (session remote500)) =
       (False, [], Some ''500 Internal Server Error'')
   \<and> log (world (snd (ExistsByName getObjectIdIfAlreadyExists alertingProfiles ''A'' (session remote500)))) =
       [\<lparr>verb = GET, target = profiles, auth = ''secret'', sent = []\<rparr>]"
proof -
  have f: "fault (world (session remote500)) GET (endpoint alertingProfiles (session remote500)) =
     Some ''500 Internal Server Error''"
    by (simp add: fixtures)
  have i: "fst (snd (fst (ExistsByName getObjectIdIfAlreadyExists alertingProfiles ''A'' (session remote500)))) = []"
    by (simp add: client_run remote_run fixtures)
  have e: "fst (fst (ExistsByName getObjectIdIfAlreadyExists alertingProfiles ''A'' (session remote500))) = False"
    by (simp add: client_run remote_run fixtures)
  have ep: "endpoint alertingProfiles (session remote500) = profiles"
    "token (receiver (session remote500)) = ''secret''" "log (world (session remote500)) = []"
    by (simp_all add: fixtures)
  from ExistsByName_list_failure [OF f, where name = "''A''"] f i e ep show ?thesis
    by (simp add: prod_eq_iff)
qed

text \<open>
  C8. With \<^verbatim>\<open>getObjectIdIfAlreadyExists\<close> as section 4.1 of the specification describes it,
  and a listing that is served: an id that ExistsByName returns is the id of a listed Value
  whose name is equal to the requested name, character by character; and when the listing
  is \<open>pre @ v # suf\<close> with no Value of \<open>pre\<close> of the requested name and \<open>v\<close> of that
  name, the id returned is the id of \<open>v\<close>, the first match in the order of the listing,
  whatever \<open>suf\<close> holds.
\<close>

theorem ExistsByName_first_exact_match:
  assumes "fault (world s) GET (endpoint api s) = None"
  shows "(fst (snd (fst (ExistsByName getObjectIdIfAlreadyExists api name s))) \<noteq> [] \<longrightarrow>
            (\<exists>v \<in> set (listing (world s) (endpoint api s)).
               valueName v = name
               \<and> valueId v = fst (snd (fst (ExistsByName getObjectIdIfAlreadyExists api name s)))))
       \<and> (\<forall>pre v suf.
            listing (world s) (endpoint api s) = pre @ v # suf
            \<and> (\<forall>u \<in> set pre. valueName u \<noteq> name) \<and> valueName v = name \<longrightarrow>
            fst (ExistsByName getObjectIdIfAlreadyExists api name s) = (valueId v \<noteq> [], valueId v, None))"
proof (intro conjI impI allI)
  assume ne: "fst (snd (fst (ExistsByName getObjectIdIfAlreadyExists api name s))) \<noteq> []"
  show "\<exists>v \<in> set (listing (world s) (endpoint api s)).
               valueName v = name
               \<and> valueId v = fst (snd (fst (ExistsByName getObjectIdIfAlreadyExists api name s)))"
  proof (cases "find (\<lambda>v. valueName v = name) (listing (world s) (endpoint api s))")
    case None
    with assms ne show ?thesis by (simp add: ExistsByName_of_lookup lookup_served)
  next
    case (Some v)
    then have "v \<in> set (listing (world s) (endpoint api s))" "valueName v = name"
      by (auto simp: find_Some_iff)
    with assms Some show ?thesis by (auto simp add: ExistsByName_of_lookup lookup_served)
  qed
next
  fix pre v suf
  assume a: "listing (world s) (endpoint api s) = pre @ v # suf
            \<and> (\<forall>u \<in> set pre. valueName u \<noteq> name) \<and> valueName v = name"
  then have "find (\<lambda>v. valueName v = name) (listing (world s) (endpoint api s)) = Some v"
    by (simp add: find_first_match)
  with assms show "fst (ExistsByName getObjectIdIfAlreadyExists api name s) = (valueId v \<noteq> [], valueId v, None)"
    by (simp add: ExistsByName_of_lookup lookup_served)
qed

theorem ExistsByName_first_exact_match_witness:
  "fault (world (session remoteFoo)) GET (endpoint alertingProfiles (session remoteFoo)) = None
   \<and> listing (world (session remoteFoo)) (endpoint alertingProfiles (session remoteFoo)) =
       [\<lparr>valueId = ''7'', valueName = ''foo''\<rparr>] @ \<lparr>valueId = ''8'', valueName = ''Foo''\<rparr>
         # [\<lparr>valueId = ''9'', valueName = ''Foo''\<rparr>]
   \<and> fst (ExistsByName getObjectIdIfAlreadyExists alertingProfiles ''Foo'' (session remoteFoo)) =
       (True, ''8'', None)"
proof -
  have f: "fault (world (session remoteFoo)) GET (endpoint alertingProfiles (session remoteFoo)) = None"
    by (simp add: fixtures)
  have l: "listing (world (session remoteFoo)) (endpoint alertingProfiles (session remoteFoo)) =
       [\<lparr>valueId = ''7'', valueName = ''foo''\<rparr>] @ \<lparr>valueId = ''8'', valueName = ''Foo''\<rparr>
         # [\<lparr>valueId = ''9'', valueName = ''Foo''\<rparr>]"
    by (simp add: fixtures listing_def)
  from ExistsByName_first_exact_match [OF f, where name = "''Foo''"]
  have "listing (world (session remoteFoo)) (endpoint alertingProfiles (session remoteFoo)) =
            [\<lparr>valueId = ''7'', valueName = ''foo''\<rparr>] @ \<lparr>valueId = ''8'', valueName = ''Foo''\<rparr>
              # [\<lparr>valueId = ''9'', valueName = ''Foo''\<rparr>]
        \<and> (\<forall>u \<in> set [\<lparr>valueId = ''7'', valueName = ''foo''\<rparr>]. valueName u \<noteq> ''Foo'')
        \<and> valueName \<lparr>valueId = ''8'', valueName = ''Foo''\<rparr> = ''Foo'' \<longrightarrow>
        fst (ExistsByName getObjectIdIfAlreadyExists alertingProfiles ''Foo'' (session remoteFoo)) =
          (valueId \<lparr>valueId = ''8'', valueName = ''Foo''\<rparr> \<noteq> [],
           valueId \<lparr>valueId = ''8'', valueName = ''Foo''\<rparr>, None)"
    by blast
  with f l show ?thesis by simp
qed

text \<open>A name that differs in case or by a trailing space is another name.\<close>

lemma ExistsByName_case_and_space:
  "fst (ExistsByName getObjectIdIfAlreadyExists alertingProfiles ''foo'' (session remoteFoo)) =
     (True, ''7'', None)"
  "fst (ExistsByName getObjectIdIfAlreadyExists alertingProfiles ''Foo '' (session remoteFoo)) =
     (False, [], None)"
  "fst (ExistsByName getObjectIdIfAlreadyExists alertingProfiles ''FOO'' (session remoteFoo)) =
     (False, [], None)"
  by (simp_all add: client_run remote_run fixtures)

subsection \<open>ReadById\<close>

text \<open>
  C4, as the code has it. ReadById makes one call of \<^verbatim>\<open>get\<close>, with the collection endpoint
  of the family followed by \<^verbatim>\<open>/\<close> and the id, and returns the \<^verbatim>\<open>Body\<close> of the response
  beside a nil error, whatever \<^verbatim>\<open>get\<close> returns; nothing else touches the transport or the
  remote. With \<^verbatim>\<open>get\<close> as modelled above, that call is one GET request to that URL.
\<close>

theorem ReadById_body_of_one_get:
  "fst (ReadById g api id' s) =
     (Body (fst (g (client (receiver s)) (endpoint api s @ ''/'' @ id') (token (receiver s)) (world s))), None)
   \<and> world (snd (ReadById g api id' s)) =
       snd (g (client (receiver s)) (endpoint api s @ ''/'' @ id') (token (receiver s)) (world s))
   \<and> log (world (snd (ReadById get api id' s))) =
       log (world s) @ [\<lparr>verb = GET, target = endpoint api s @ ''/'' @ id',
                         auth = token (receiver s), sent = []\<rparr>]"
  by (simp add: ReadById_def call_def endpoint_def Let_def get_def received_def split: prod.splits option.splits)


text \<open>
  C4, as stated, fails: the remote answers the GET of an id it does not store with the
  status 404, and ReadById returns the empty body with a nil error.
\<close>

theorem ReadById_not_found_counterexample:
  "StatusCode (fst (get 0 (profiles @ ''/7'') ''secret'' remoteAB)) = 404
   \<and> fst (ReadById get alertingProfiles ''7'' (session remoteAB)) = ([], None)
   \<and> log (world (snd (ReadById get alertingProfiles ''7'' (session remoteAB)))) =
       [\<lparr>verb = GET, target = profiles @ ''/7'', auth = ''secret'', sent = []\<rparr>]"
  by (simp add: client_run remote_run fixtures)


subsection \<open>ReadByName\<close>

text \<open>
  C5. ReadByName calls ExistsByName first. If that returns an error, ReadByName returns the
  nil body and the same error, in the state that ExistsByName left. If it returns no error
  and the flag false, ReadByName returns the nil body and an error with the message
  \<^verbatim>\<open>404 - no config found with name\<close> followed by the requested name, again in the state
  that ExistsByName left, so \<^verbatim>\<open>get\<close> is not called. If it returns no error and the flag
  true, ReadByName is ReadById on the id that ExistsByName returned.
\<close>

theorem ReadByName_composition:
  assumes "ExistsByName lk api name s = ((exists, objectId, err), s')"
  shows "(err \<noteq> None \<longrightarrow> ReadByName lk g api name s = (([], err), s'))
       \<and> (err = None \<and> \<not> exists \<longrightarrow>
            ReadByName lk g api name s =
              (([], Some (''404 - no config found with name '' @ name)), s'))
       \<and> (err = None \<and> exists \<longrightarrow> ReadByName lk g api name s = ReadById g api objectId s')"
  using assms by (simp add: ReadByName_def)

theorem ReadByName_composition_witness:
  "ExistsByName getObjectIdIfAlreadyExists alertingProfiles ''A'' (session remote500) =
     ((False, [], Some ''500 Internal Server Error''),
      session (received GET profiles ''secret'' [] remote500))
   \<and> ReadByName getObjectIdIfAlreadyExists get alertingProfiles ''A'' (session remote500) =
       (([], Some ''500 Internal Server Error''),
        session (received GET profiles ''secret'' [] remote500))
   \<and> ExistsByName getObjectIdIfAlreadyExists alertingProfiles ''C'' (session remoteAB) =
       ((False, [], None), session (received GET profiles ''secret'' [] remoteAB))
   \<and> ReadByName getObjectIdIfAlreadyExists get alertingProfiles ''C'' (session remoteAB) =
       (([], Some ''404 - no config found with name C''),
        session (received GET profiles ''secret'' [] remoteAB))
   \<and> ExistsByName getObjectIdIfAlreadyExists alertingProfiles ''B'' (session remoteAB) =
       ((True, ''2'', None), session (received GET profiles ''secret'' [] remoteAB))
   \<and> ReadByName getObjectIdIfAlreadyExists get alertingProfiles ''B'' (session remoteAB) =
       ReadById get alertingProfiles ''2'' (session (received GET profiles ''secret'' [] remoteAB))
   \<and> fst (ReadByName getObjectIdIfAlreadyExists get alertingProfiles ''B'' (session remoteAB)) =
       (''{b}'', None)"
proof -
  have e1: "ExistsByName getObjectIdIfAlreadyExists alertingProfiles ''A'' (session remote500) =
     ((False, [], Some ''500 Internal Server Error''),
      session (received GET profiles ''secret'' [] remote500))"
    by (simp add: client_run remote_run fixtures)
  have e2: "ExistsByName getObjectIdIfAlreadyExists alertingProfiles ''C'' (session remoteAB) =
       ((False, [], None), session (received GET profiles ''secret'' [] remoteAB))"
    by (simp add: client_run remote_run fixtures)
  have e3: "ExistsByName getObjectIdIfAlreadyExists alertingProfiles ''B'' (session remoteAB) =
       ((True, ''2'', None), session (received GET profiles ''secret'' [] remoteAB))"
    by (simp add: client_run remote_run fixtures)
  have r: "fst (ReadById get alertingProfiles ''2''
                 (session (received GET profiles ''secret'' [] remoteAB))) = (''{b}'', None)"
    by (simp add: client_run remote_run fixtures)
  from ReadByName_composition [OF e1, where g = get] ReadByName_composition [OF e2, where g = get]
    ReadByName_composition [OF e3, where g = get] e1 e2 e3 r
  show ?thesis by simp
qed

subsection \<open>UpsertByName\<close>

text \<open>
  C2. For a family with the identifier \<^verbatim>\<open>extension\<close>, UpsertByName is one call of
  \<^verbatim>\<open>uploadExtension\<close> and does not depend on \<^verbatim>\<open>upsertDynatraceObject\<close>, whatever the
  remote stores; for every other family it is one call of \<^verbatim>\<open>upsertDynatraceObject\<close> and
  does not depend on \<^verbatim>\<open>uploadExtension\<close>.
\<close>

theorem UpsertByName_routing:
  "(GetId api = ''extension'' \<longrightarrow>
      UpsertByName upl ups api json name s =
        call (upl (client (receiver s)) (endpoint api s) name json (token (receiver s))) s
      \<and> (\<forall>ups'. UpsertByName upl ups' api json name s = UpsertByName upl ups api json name s))
   \<and> (GetId api \<noteq> ''extension'' \<longrightarrow>
      UpsertByName upl ups api json name s =
        call (ups (client (receiver s)) (endpoint api s) name (GetId api) json (token (receiver s))) s
      \<and> (\<forall>upl'. UpsertByName upl' ups api json name s = UpsertByName upl ups api json name s))"
  by (simp add: UpsertByName_def endpoint_def Let_def)

theorem UpsertByName_routing_witness:
  "GetId extension = ''extension''
   \<and> UpsertByName (\<lambda>c url n p t r. ((\<lparr>entityId = n\<rparr>, None), r)) upsertDynatraceObject
         extension ''{z}'' ''ext'' (session remoteAB) =
       ((\<lparr>entityId = ''ext''\<rparr>, None), session remoteAB)
   \<and> GetId alertingProfiles \<noteq> ''extension''
   \<and> UpsertByName (\<lambda>c url n p t r. ((\<lparr>entityId = n\<rparr>, None), r)) upsertDynatraceObject
         alertingProfiles ''{z}'' ''ext'' (session remoteAB) =
       call (upsertDynatraceObject 0 profiles ''ext'' ''alerting-profile'' ''{z}'' ''secret'')
         (session remoteAB)"
proof -
  have x: "GetId extension = ''extension''" by (simp add: extension_def)
  have a: "GetId alertingProfiles \<noteq> ''extension''" by (simp add: alertingProfiles_def)
  have c: "call (\<lambda>r. ((\<lparr>entityId = ''ext''\<rparr>, None), r)) (session remoteAB) =
             ((\<lparr>entityId = ''ext''\<rparr>, None), session remoteAB)"
    by (simp add: call_def)
  have e: "endpoint alertingProfiles (session remoteAB) = profiles"
    "client (receiver (session remoteAB)) = 0" "token (receiver (session remoteAB)) = ''secret''"
    "GetId alertingProfiles = ''alerting-profile''"
    by (simp_all add: fixtures)
  from UpsertByName_routing [where api = extension and s = "session remoteAB"
         and upl = "\<lambda>c url n p t r. ((\<lparr>entityId = n\<rparr>, None), r)" and ups = upsertDynatraceObject
         and json = "''{z}''" and name = "''ext''"]
       UpsertByName_routing [where api = alertingProfiles and s = "session remoteAB"
         and upl = "\<lambda>c url n p t r. ((\<lparr>entityId = n\<rparr>, None), r)" and ups = upsertDynatraceObject
         and json = "''{z}''" and name = "''ext''"]
       x a c e
  show ?thesis by simp
qed

text \<open>
  C1. The interface takes \<^verbatim>\<open>(api, name, json)\<close>, the method binds them as
  \<^verbatim>\<open>(api, json, name)\<close>. For the call \<^verbatim>\<open>UpsertByName(alertingProfiles, "A", "{new}")\<close> on
  the remote that lists \<^verbatim>\<open>A\<close> under the id 1: the scan runs with \<^verbatim>\<open>{new}\<close> as the name
  and finds nothing, and the request that follows is a POST whose body is \<^verbatim>\<open>A\<close>; the
  remote ends with a second object named \<^verbatim>\<open>A\<close>, and \<^verbatim>\<open>{new}\<close> is never sent.
\<close>

theorem UpsertByName_scans_body_sends_name:
  "fst (UpsertByName upl upsertDynatraceObject alertingProfiles ''A'' ''{new}'' (session remoteAB)) =
     (\<lparr>entityId = ''n''\<rparr>, None)
   \<and> log (world (snd (UpsertByName upl upsertDynatraceObject alertingProfiles ''A'' ''{new}''
                        (session remoteAB)))) =
       [\<lparr>verb = GET, target = profiles, auth = ''secret'', sent = []\<rparr>,
        \<lparr>verb = POST, target = profiles, auth = ''secret'', sent = ''A''\<rparr>]
   \<and> map snd (stored (world (snd (UpsertByName upl upsertDynatraceObject alertingProfiles ''A''
                                     ''{new}'' (session remoteAB))))) =
       [\<lparr>configId = ''1'', configName = ''A'', configBody = ''{a}''\<rparr>,
        \<lparr>configId = ''2'', configName = ''B'', configBody = ''{b}''\<rparr>,
        \<lparr>configId = ''n'', configName = ''A'', configBody = ''A''\<rparr>]"
  by (simp add: client_run remote_run fixtures Let_def)

lemma first_upsert:
  "UpsertByName upl upsertDynatraceObject alertingProfiles ''A'' ''{a}''
     (session (emptyRemote nm mt)) =
   ((\<lparr>entityId = mt 0\<rparr>, None), session (afterFirst nm mt))"
  by (simp add: client_run remote_run fixtures afterFirst_def Let_def)

lemma second_upsert:
  "map snd (stored (world (snd (UpsertByName upl upsertDynatraceObject alertingProfiles ''A'' ''{b}''
     (session (afterFirst nm mt)))))) =
     (if nm ''A'' = ''{b}'' \<and> mt 0 \<noteq> []
      then [\<lparr>configId = mt 0, configName = nm ''A'', configBody = ''A''\<rparr>]
      else [\<lparr>configId = mt 0, configName = nm ''A'', configBody = ''A''\<rparr>,
            \<lparr>configId = mt 1, configName = nm ''A'', configBody = ''A''\<rparr>])"
  by (simp add: client_run remote_run fixtures afterFirst_def Let_def)

lemma upsertTwice_stored:
  "map snd (stored (world (upsertTwice upl alertingProfiles ''A'' ''{a}'' ''{b}''
                             (session (emptyRemote nm mt))))) =
     (if nm ''A'' = ''{b}'' \<and> mt 0 \<noteq> []
      then [\<lparr>configId = mt 0, configName = nm ''A'', configBody = ''A''\<rparr>]
      else [\<lparr>configId = mt 0, configName = nm ''A'', configBody = ''A''\<rparr>,
            \<lparr>configId = mt 1, configName = nm ''A'', configBody = ''A''\<rparr>])"
  unfolding upsertTwice_def first_upsert snd_conv by (rule second_upsert)

text \<open>
  C3. \<^verbatim>\<open>UpsertByName(alertingProfiles, "A", "{a}")\<close> and then
  \<^verbatim>\<open>UpsertByName(alertingProfiles, "A", "{b}")\<close> on a remote that stores nothing: for
  every way in which the remote names objects and mints ids, no stored object has the
  content \<^verbatim>\<open>{b}\<close> afterwards, and the number of objects under the name \<^verbatim>\<open>A\<close> is not one.
\<close>

theorem upsertTwice_keeps_no_second_body:
  "filter (\<lambda>uc. configBody (snd uc) = ''{b}'')
     (stored (world (upsertTwice upl alertingProfiles ''A'' ''{a}'' ''{b}''
                       (session (emptyRemote nm mt))))) = []
   \<and> length (filter (\<lambda>uc. configName (snd uc) = ''A'')
        (stored (world (upsertTwice upl alertingProfiles ''A'' ''{a}'' ''{b}''
                          (session (emptyRemote nm mt)))))) \<noteq> 1"
proof -
  let ?st = "stored (world (upsertTwice upl alertingProfiles ''A'' ''{a}'' ''{b}''
                       (session (emptyRemote nm mt))))"
  have m: "map snd ?st =
     (if nm ''A'' = ''{b}'' \<and> mt 0 \<noteq> []
      then [\<lparr>configId = mt 0, configName = nm ''A'', configBody = ''A''\<rparr>]
      else [\<lparr>configId = mt 0, configName = nm ''A'', configBody = ''A''\<rparr>,
            \<lparr>configId = mt 1, configName = nm ''A'', configBody = ''A''\<rparr>])"
    by (rule upsertTwice_stored)
  have "filter (\<lambda>c. configBody c = ''{b}'') (map snd ?st) = []"
    unfolding m by simp
  then have body: "filter (\<lambda>uc. configBody (snd uc) = ''{b}'') ?st = []"
    by (simp add: filter_map comp_def)
  have "length (filter (\<lambda>c. configName c = ''A'') (map snd ?st)) \<noteq> 1"
    unfolding m by simp
  then have name: "length (filter (\<lambda>uc. configName (snd uc) = ''A'') ?st) \<noteq> 1"
    by (simp add: filter_map comp_def)
  from body name show ?thesis by simp
qed


text \<open>
  With the two strings in the order in which the method declares them (the body first,
  the name second), the same two calls create one object and then update it in place,
  provided the remote reads the name out of either body and its first id is not empty.
\<close>

lemma declared_order_updates_in_place:
  assumes "nm bodyA = name" and "nm bodyB = name" and "mt 0 \<noteq> []"
  shows "map snd (stored (world (snd
           (UpsertByName upl upsertDynatraceObject alertingProfiles bodyB name
              (snd (UpsertByName upl upsertDynatraceObject alertingProfiles bodyA name
                      (session (emptyRemote nm mt)))))))) =
         [\<lparr>configId = mt 0, configName = name, configBody = bodyB\<rparr>]"
proof -
  have one: "UpsertByName upl upsertDynatraceObject alertingProfiles bodyA name
               (session (emptyRemote nm mt)) =
             ((\<lparr>entityId = mt 0\<rparr>, None),
              session
                \<lparr>stored = [(profiles, \<lparr>configId = mt 0, configName = name, configBody = bodyA\<rparr>)],
                 fault = (\<lambda>v url. None), naming = nm, mint = mt, issued = 1,
                 log = [\<lparr>verb = GET, target = profiles, auth = ''secret'', sent = []\<rparr>,
                        \<lparr>verb = POST, target = profiles, auth = ''secret'', sent = bodyA\<rparr>]\<rparr>)"
    using assms(1) by (simp add: client_run remote_run fixtures Let_def)
  show ?thesis
    unfolding one snd_conv using assms(2,3)
    by (simp add: client_run remote_run fixtures Let_def)
qed

end
